theory Spec2Isabelle
  imports Complex_Main "HOL-Library.Monad_Syntax"
begin

section \<open>Beam angles of the AD2CP in Janus configuration\<close>

text \<open>
  The notebook \<^verbatim>\<open>AD2CP-angles.ipynb\<close> defines one Python function,
  \<^verbatim>\<open>angle_from_vertical\<close>, which maps the two mounting angles of the transducer pairs
  and the glider's pitch and roll (all in degrees) to the angle from vertical of each
  of the four beams, prints the four angles and returns them.

  Numbers: the source computes with numpy's binary64 floats. Here a float is
  idealised as a \<^typ>\<open>real\<close>, and \<^verbatim>\<open>np.cos\<close>, \<^verbatim>\<open>np.arccos\<close>, \<^verbatim>\<open>np.deg2rad\<close> and
  \<^verbatim>\<open>np.rad2deg\<close> as the exact functions on the reals; the rounding of each float
  operation is not part of the model. Every statement below is about this
  real-valued reading of the code.
\<close>

subsection \<open>numpy's functions\<close>

text \<open>
  \<^verbatim>\<open>np.deg2rad(x)\<close> is \<open>x * (pi / 180)\<close> and \<^verbatim>\<open>np.rad2deg(x)\<close> is \<open>x * (180 / pi)\<close>.
\<close>

definition deg2rad :: "real \<Rightarrow> real" where
  "deg2rad x = x * (pi / 180)"

definition rad2deg :: "real \<Rightarrow> real" where
  "rad2deg x = x * (180 / pi)"

text \<open>
  \<^verbatim>\<open>np.arccos\<close> is defined on \<open>[-1, 1]\<close> only. Outside of it numpy signals the
  floating-point error "invalid value encountered in arccos" (and yields no angle);
  that failure is the value \<open>None\<close> here, so that the domain error is a branch of the
  model.
\<close>

definition np_arccos :: "real \<Rightarrow> real option" where
  "np_arccos x = (if - 1 \<le> x \<and> x \<le> 1 then Some (arccos x) else None)"

subsection \<open>Formatting and printing\<close>

text \<open>
  The f-string conversion \<^verbatim>\<open>{x:.3f}\<close> writes a sign for a negative number, the
  integer part in decimal, a point and exactly three decimals; the number is rounded
  to the nearest multiple of \<open>1/1000\<close>, a tie going to the even neighbour.
  \<open>fixed_3 n\<close> writes the number \<open>n / 1000\<close>.
\<close>

definition round_half_even :: "real \<Rightarrow> int" where
  "round_half_even x =
     (let f = \<lfloor>x\<rfloor>; d = x - of_int f
      in if d < 1 / 2 then f
         else if 1 / 2 < d then f + 1
         else if even f then f else f + 1)"

definition digit_char :: "nat \<Rightarrow> char" where
  "digit_char d = ''0123456789'' ! d"


fun str_nat :: "nat \<Rightarrow> string" where
  "str_nat n = (if n < 10 then [digit_char n] else str_nat (n div 10) @ [digit_char (n mod 10)])"

declare str_nat.simps [simp del]

definition fixed_3 :: "nat \<Rightarrow> string" where
  "fixed_3 n =
     str_nat (n div 1000) @ ''.'' @
     [digit_char (n div 100 mod 10), digit_char (n div 10 mod 10), digit_char (n mod 10)]"

definition format_3f :: "real \<Rightarrow> string" where
  "format_3f x =
     (if x < 0 then ''-'' else '''') @ fixed_3 (nat (round_half_even (\<bar>x\<bar> * 1000)))"

definition newline :: char where
  "newline = CHR 0x0A"

text \<open>\<^verbatim>\<open>print(s)\<close> writes \<open>s\<close> and a newline to the standard output.\<close>

definition py_print :: "string \<Rightarrow> string" where
  "py_print s = s @ [newline]"

subsection \<open>The function\<close>

text \<open>
  The result is \<open>None\<close> when an \<^verbatim>\<open>np.arccos\<close> fails, and otherwise the text written to
  the standard output together with the returned tuple
  \<open>(theta_1, theta_2, theta_3, theta_4)\<close>.
\<close>

type_synonym angles = "real \<times> real \<times> real \<times> real"

definition angle_from_vertical :: "real \<Rightarrow> real \<Rightarrow> real \<Rightarrow> real \<Rightarrow> (string \<times> angles) option" where
  "angle_from_vertical fore_aft_angle port_starboard_angle pitch roll = do {
     let phi_pitch = deg2rad pitch;
     let phi_roll = deg2rad roll;
     let angle_fa = deg2rad fore_aft_angle;
     let angle_ps = deg2rad port_starboard_angle;
     theta_1 \<leftarrow> map_option rad2deg (np_arccos (cos (angle_fa - phi_pitch) * cos phi_roll));
     theta_2 \<leftarrow> map_option rad2deg (np_arccos (cos (angle_ps - phi_roll) * cos phi_pitch));
     theta_3 \<leftarrow> map_option rad2deg (np_arccos (cos (angle_fa + phi_pitch) * cos phi_roll));
     theta_4 \<leftarrow> map_option rad2deg (np_arccos (cos (angle_ps + phi_roll) * cos phi_pitch));
     let out = py_print (''fore angle: '' @ format_3f theta_1 @ [newline] @
                         ''port angle: '' @ format_3f theta_2 @ [newline] @
                         ''aft angle: '' @ format_3f theta_3 @ [newline] @
                         ''stbd angle: '' @ format_3f theta_4);
     Some (out, (theta_1, theta_2, theta_3, theta_4))
   }"

text \<open>
  A call gives each parameter by keyword or leaves it out; a parameter left out
  (\<open>None\<close>) takes its default: 47.5, 25, 0 and 0.
\<close>

definition angle_from_vertical_call ::
    "real option \<Rightarrow> real option \<Rightarrow> real option \<Rightarrow> real option \<Rightarrow> (string \<times> angles) option" where
  "angle_from_vertical_call fore_aft_angle port_starboard_angle pitch roll =
     angle_from_vertical
       (case fore_aft_angle of None \<Rightarrow> 47.5 | Some v \<Rightarrow> v)
       (case port_starboard_angle of None \<Rightarrow> 25 | Some v \<Rightarrow> v)
       (case pitch of None \<Rightarrow> 0 | Some v \<Rightarrow> v)
       (case roll of None \<Rightarrow> 0 | Some v \<Rightarrow> v)"

text \<open>The returned tuple alone, and the text alone.\<close>

definition returned :: "(string \<times> angles) option \<Rightarrow> angles option" where
  "returned r = map_option snd r"

definition printed :: "(string \<times> angles) option \<Rightarrow> string option" where
  "printed r = map_option fst r"

subsection \<open>The formulas of the specification\<close>

text \<open>
  The specification gives the four angles in closed form: each parameter converted
  to radians, \<open>arccos\<close> of a product of two cosines, and the result converted back to
  degrees.
\<close>

definition spec_radians :: "real \<Rightarrow> real" where
  "spec_radians d = d * pi / 180"

definition spec_degrees :: "real \<Rightarrow> real" where
  "spec_degrees r = r * 180 / pi"

definition spec_theta_1 :: "real \<Rightarrow> real \<Rightarrow> real \<Rightarrow> real \<Rightarrow> real" where
  "spec_theta_1 fore_aft port_starboard pitch roll =
     spec_degrees (arccos (cos (spec_radians fore_aft - spec_radians pitch) * cos (spec_radians roll)))"

definition spec_theta_2 :: "real \<Rightarrow> real \<Rightarrow> real \<Rightarrow> real \<Rightarrow> real" where
  "spec_theta_2 fore_aft port_starboard pitch roll =
     spec_degrees (arccos (cos (spec_radians port_starboard - spec_radians roll) * cos (spec_radians pitch)))"

definition spec_theta_3 :: "real \<Rightarrow> real \<Rightarrow> real \<Rightarrow> real \<Rightarrow> real" where
  "spec_theta_3 fore_aft port_starboard pitch roll =
     spec_degrees (arccos (cos (spec_radians fore_aft + spec_radians pitch) * cos (spec_radians roll)))"

definition spec_theta_4 :: "real \<Rightarrow> real \<Rightarrow> real \<Rightarrow> real \<Rightarrow> real" where
  "spec_theta_4 fore_aft port_starboard pitch roll =
     spec_degrees (arccos (cos (spec_radians port_starboard + spec_radians roll) * cos (spec_radians pitch)))"

subsection \<open>Agreement to three decimals\<close>

text \<open>
  A computed angle agrees with a listed value to three decimals when it lies less
  than half a thousandth from it, so that it rounds to the listed value.
\<close>

definition agrees_3 :: "real \<Rightarrow> real \<Rightarrow> bool" where
  "agrees_3 x v \<longleftrightarrow> \<bar>x - v\<bar> < 1 / 2000"

subsection \<open>A polynomial for the cosine\<close>

text \<open>
  The Taylor polynomial of degree 10 of the cosine, and its numerator at a fraction
  \<open>a / b\<close> over the denominator \<open>12! * b ^ 12\<close>; they bound the cosines of the
  notebook's angles between fractions.
\<close>

definition cos_poly :: "real \<Rightarrow> real" where
  "cos_poly x = 1 - x^2 / 2 + x^4 / 24 - x^6 / 720 + x^8 / 40320 - x^10 / 3628800"

definition cos_num :: "real \<Rightarrow> real \<Rightarrow> real" where
  "cos_num a b = 479001600 * b^12 - 239500800 * b^10 * a^2 + 19958400 * b^8 * a^4
     - 665280 * b^6 * a^6 + 11880 * b^4 * a^8 - 132 * b^2 * a^10"

section \<open>Properties\<close>

subsection \<open>The arguments of arccos\<close>

lemma cos_mult_cos_bounds: "- 1 \<le> cos (a::real) * cos b \<and> cos a * cos b \<le> 1"
proof -
  have "\<bar>cos a * cos b\<bar> = \<bar>cos a\<bar> * \<bar>cos b\<bar>"
    by (simp add: abs_mult)
  also have "\<dots> \<le> 1 * 1"
    by (intro mult_mono) simp_all
  finally show ?thesis
    by (simp add: abs_le_iff)
qed

lemma np_arccos_cos_mult_cos: "np_arccos (cos a * cos b) = Some (arccos (cos a * cos b))"
  using cos_mult_cos_bounds [of a b] by (simp add: np_arccos_def)

text \<open>The function in closed form: it always returns, and returns these four angles.\<close>

lemma angle_from_vertical_returned:
  "returned (angle_from_vertical fa ps p r) =
     Some (rad2deg (arccos (cos (deg2rad fa - deg2rad p) * cos (deg2rad r))),
           rad2deg (arccos (cos (deg2rad ps - deg2rad r) * cos (deg2rad p))),
           rad2deg (arccos (cos (deg2rad fa + deg2rad p) * cos (deg2rad r))),
           rad2deg (arccos (cos (deg2rad ps + deg2rad r) * cos (deg2rad p))))"
  by (simp add: returned_def angle_from_vertical_def np_arccos_cos_mult_cos Let_def)

subsection \<open>Degrees and radians\<close>

lemma rad2deg_arccos_range:
  assumes "- 1 \<le> y" "y \<le> 1"
  shows "0 \<le> rad2deg (arccos y) \<and> rad2deg (arccos y) \<le> 180"
proof -
  have b: "0 \<le> arccos y" "arccos y \<le> pi"
    using arccos_bounded [OF assms] by simp_all
  have "arccos y * (180 / pi) \<le> pi * (180 / pi)"
    using b(2) by (intro mult_right_mono) simp_all
  then show ?thesis
    using b(1) by (simp add: rad2deg_def)
qed

lemma rad2deg_arccos_cos:
  assumes "0 \<le> d" "d \<le> 180"
  shows "rad2deg (arccos (cos (deg2rad d))) = d"
proof -
  have "0 \<le> deg2rad d"
    using assms(1) by (simp add: deg2rad_def)
  moreover have "d * (pi / 180) \<le> 180 * (pi / 180)"
    using assms(2) by (intro mult_right_mono) simp_all
  then have "deg2rad d \<le> pi"
    by (simp add: deg2rad_def)
  ultimately have "arccos (cos (deg2rad d)) = deg2rad d"
    by (rule arccos_cos)
  then show ?thesis
    by (simp add: rad2deg_def deg2rad_def)
qed

lemma deg2rad_diff: "deg2rad a - deg2rad b = deg2rad (a - b)"
  by (simp add: deg2rad_def algebra_simps)

lemma deg2rad_add: "deg2rad a + deg2rad b = deg2rad (a + b)"
  by (simp add: deg2rad_def algebra_simps)

lemma deg2rad_minus: "deg2rad (- a) = - deg2rad a"
  by (simp add: deg2rad_def)

lemma deg2rad_zero: "deg2rad 0 = 0"
  by (simp add: deg2rad_def)

lemma flat_defaults:
  "returned (angle_from_vertical 47.5 25 0 0) = Some (47.5, 25, 47.5, 25)"
proof -
  have "rad2deg (arccos (cos (deg2rad 47.5))) = 47.5" "rad2deg (arccos (cos (deg2rad 25))) = 25"
    by (rule rad2deg_arccos_cos; simp)+
  then show ?thesis
    by (simp add: angle_from_vertical_returned deg2rad_zero)
qed


subsection \<open>Formatting\<close>









lemma angle_from_vertical_printed:
  "returned (angle_from_vertical fa ps p r) = Some (t1, t2, t3, t4) \<Longrightarrow>
   printed (angle_from_vertical fa ps p r) =
     Some (''fore angle: '' @ format_3f t1 @ [newline] @
           ''port angle: '' @ format_3f t2 @ [newline] @
           ''aft angle: '' @ format_3f t3 @ [newline] @
           ''stbd angle: '' @ format_3f t4 @ [newline])"
  by (auto simp: returned_def printed_def angle_from_vertical_def Let_def py_print_def
      np_arccos_cos_mult_cos)

lemma format_3f_defaults: "format_3f 47.5 = ''47.500''" "format_3f 25 = ''25.000''"
  by (simp_all add: format_3f_def round_half_even_def fixed_3_def str_nat.simps digit_char_def)

lemma default_call_prints:
  "printed (angle_from_vertical_call None None None None) =
     Some ''fore angle: 47.500\<newline>port angle: 25.000\<newline>aft angle: 47.500\<newline>stbd angle: 25.000\<newline>''"
  unfolding angle_from_vertical_call_def option.case
    angle_from_vertical_printed [OF flat_defaults] format_3f_defaults newline_def
  by simp

subsection \<open>Bounds on the cosine and on pi\<close>

text \<open>
  Taylor's theorem bounds the distance of \<open>cos x\<close> from \<open>cos_poly x\<close> by
  \<open>\<bar>x\<bar> ^ 12 / 12!\<close>. At a fraction \<open>a / b\<close> both bounds are fractions over
  \<open>12! * b ^ 12\<close>, and comparing them with \<open>u / v\<close> is a comparison of integers.
\<close>

lemma cos_coeff_sum_12: "(\<Sum>m<12. cos_coeff m * x ^ m) = cos_poly x"
proof -
  have "{..<12::nat} = {0, 1, 2, 3, 4, 5, 6, 7, 8, 9, 10, 11}"
    by auto arith
  then show ?thesis
    by (simp add: cos_coeff_def cos_poly_def fact_numeral)
qed

lemma cos_taylor: "\<bar>cos x - cos_poly x\<bar> \<le> \<bar>x\<bar> ^ 12 / 479001600"
proof -
  obtain t where
    t: "cos x = (\<Sum>m<12. cos_coeff m * x ^ m) + (cos (t + 1/2 * real 12 * pi) / fact 12) * x ^ 12"
    using Maclaurin_cos_expansion [of x 12] by blast
  have f: "fact 12 = (479001600::real)"
    by (simp add: fact_numeral)
  have "\<bar>cos x - cos_poly x\<bar> = \<bar>cos (t + 1/2 * real 12 * pi)\<bar> * \<bar>x\<bar> ^ 12 / 479001600"
    unfolding t cos_coeff_sum_12 f by (simp add: abs_mult power_abs)
  also have "\<dots> \<le> 1 * \<bar>x\<bar> ^ 12 / 479001600"
    by (intro divide_right_mono mult_right_mono) simp_all
  finally show ?thesis by simp
qed

lemma cos_num_scaled: "cos_num (x * b) b = 479001600 * b^12 * cos_poly x"
  unfolding cos_num_def cos_poly_def by algebra

lemma cos_frac_bounds:
  assumes "0 < b"
  shows "(cos_num a b - a^12) / (479001600 * b^12) \<le> cos (a / b)"
    and "cos (a / b) \<le> (cos_num a b + a^12) / (479001600 * b^12)"
proof -
  have b: "b \<noteq> 0"
    using assms by simp
  have "cos_num a b = cos_num (a / b * b) b"
    using b by simp
  also have "\<dots> = 479001600 * b^12 * cos_poly (a / b)"
    by (rule cos_num_scaled)
  finally have n: "cos_num a b / (479001600 * b^12) = cos_poly (a / b)"
    using b by simp
  have e: "\<bar>a / b\<bar> ^ 12 / 479001600 = a^12 / (479001600 * b^12)"
    by (simp add: power_divide)
  have "\<bar>cos (a / b) - cos_num a b / (479001600 * b^12)\<bar> \<le> a^12 / (479001600 * b^12)"
    using cos_taylor [of "a / b"] unfolding n e .
  then show "(cos_num a b - a^12) / (479001600 * b^12) \<le> cos (a / b)"
    and "cos (a / b) \<le> (cos_num a b + a^12) / (479001600 * b^12)"
    by (simp_all add: diff_divide_distrib add_divide_distrib abs_le_iff)
qed

lemma cos_frac_le:
  assumes "0 < b" "0 < v" "(cos_num a b + a^12) * v \<le> u * (479001600 * b^12)"
  shows "cos (a / b) \<le> u / v"
proof -
  have "(cos_num a b + a^12) / (479001600 * b^12) \<le> u / v"
    using assms by (simp add: divide_simps mult.commute)
  with cos_frac_bounds(2) [OF assms(1), of a] show ?thesis
    by linarith
qed

lemma cos_frac_ge:
  assumes "0 < b" "0 < v" "u * (479001600 * b^12) \<le> (cos_num a b - a^12) * v"
  shows "u / v \<le> cos (a / b)"
proof -
  have "u / v \<le> (cos_num a b - a^12) / (479001600 * b^12)"
    using assms by (simp add: divide_simps mult.commute)
  with cos_frac_bounds(1) [OF assms(1), of a] show ?thesis
    by linarith
qed

text \<open>
  Bounds on \<open>pi\<close>: the cosine decreases on \<open>[0, pi]\<close> and \<open>cos (pi / 6) = sqrt 3 / 2\<close>,
  so a point whose cosine is above \<open>sqrt 3 / 2\<close> lies below \<open>pi / 6\<close>, and conversely.
  The fractions have the denominator \<open>2 ^ 34 = 17179869184\<close>.
\<close>

lemma pi_lower: "314159265 / 100000000 < pi"
proof (rule ccontr)
  assume "\<not> 314159265 / 100000000 < pi"
  then have "pi / 6 \<le> 8995358460 / 17179869184"
    by simp
  moreover have "(8995358460 / 17179869184 :: real) \<le> pi"
    using pi_ge_two by simp
  ultimately have "cos (8995358460 / 17179869184 :: real) \<le> cos (pi / 6)"
    by (intro cos_monotone_0_pi_le) (use pi_gt_zero in simp_all)
  moreover have "14878203151 / 17179869184 \<le> cos (8995358460 / 17179869184 :: real)"
    by (rule cos_frac_ge) (simp_all add: cos_num_def)
  moreover have "sqrt 3 < 2 * (14878203151 / 17179869184)"
    by (rule real_less_lsqrt) (simp_all add: power2_eq_square)
  ultimately show False
    by (simp add: cos_30)
qed

lemma pi_upper: "pi < 314159266 / 100000000"
proof (rule ccontr)
  assume "\<not> pi < 314159266 / 100000000"
  then have "8995358488 / 17179869184 \<le> pi / 6"
    by simp
  then have "cos (pi / 6) \<le> cos (8995358488 / 17179869184 :: real)"
    by (intro cos_monotone_0_pi_le) (use pi_gt_zero in simp_all)
  moreover have "cos (8995358488 / 17179869184 :: real) \<le> 14878203138 / 17179869184"
    by (rule cos_frac_le) (simp_all add: cos_num_def)
  moreover have "2 * (14878203138 / 17179869184) < sqrt 3"
    by (rule real_less_rsqrt) (simp add: power2_eq_square)
  ultimately show False
    by (simp add: cos_30)
qed

text \<open>
  The cosine of an angle given in degrees: the angle in radians lies between two
  fractions by the bounds on \<open>pi\<close>, and the cosine decreases on \<open>[0, pi]\<close>.
\<close>

lemma cos_deg_upper:
  assumes "0 < b" "0 \<le> a" "0 < v" "d \<le> 180"
    and "a / b * 180 \<le> d * (314159265 / 100000000)"
    and "(cos_num a b + a^12) * v \<le> u * (479001600 * b^12)"
  shows "cos (deg2rad d) \<le> u / v"
proof -
  have "0 \<le> a / b"
    using assms(1,2) by simp
  with assms(5) have d: "0 \<le> d"
    by (simp add: zero_le_mult_iff)
  then have "d * (314159265 / 100000000) \<le> d * pi"
    using pi_lower by (intro mult_left_mono) simp_all
  with assms(5) have "a / b \<le> deg2rad d"
    by (simp add: deg2rad_def)
  moreover have "d * (pi / 180) \<le> 180 * (pi / 180)"
    using assms(4) by (intro mult_right_mono) simp_all
  then have "deg2rad d \<le> pi"
    by (simp add: deg2rad_def)
  ultimately have "cos (deg2rad d) \<le> cos (a / b)"
    using \<open>0 \<le> a / b\<close> by (intro cos_monotone_0_pi_le)
  also have "\<dots> \<le> u / v"
    using assms(1,3,6) by (rule cos_frac_le)
  finally show ?thesis .
qed

lemma cos_deg_lower:
  assumes "0 < b" "0 < v" "0 \<le> d" "a / b \<le> 3"
    and "d * (314159266 / 100000000) \<le> a / b * 180"
    and "u * (479001600 * b^12) \<le> (cos_num a b - a^12) * v"
  shows "u / v \<le> cos (deg2rad d)"
proof -
  have "d * pi \<le> d * (314159266 / 100000000)"
    using pi_upper assms(3) by (intro mult_left_mono) simp_all
  with assms(5) have "deg2rad d \<le> a / b"
    by (simp add: deg2rad_def)
  moreover have "0 \<le> deg2rad d"
    using assms(3) by (simp add: deg2rad_def)
  moreover have "a / b \<le> pi"
    using assms(4) pi_lower by simp
  ultimately have "cos (a / b) \<le> cos (deg2rad d)"
    by (intro cos_monotone_0_pi_le)
  moreover have "u / v \<le> cos (a / b)"
    using assms(1,2,6) by (rule cos_frac_ge)
  ultimately show ?thesis
    by simp
qed

subsection \<open>Angles between two bounds\<close>

text \<open>
  \<open>arccos\<close> decreases strictly, so a value between the cosines of two angles has its
  \<open>arccos\<close> between the angles.
\<close>

lemma rad2deg_deg2rad: "rad2deg (deg2rad d) = d"
  by (simp add: rad2deg_def deg2rad_def)

lemma rad2deg_less: "x < y \<Longrightarrow> rad2deg x < rad2deg y"
  unfolding rad2deg_def by (intro mult_strict_right_mono) simp_all

lemma arccos_cos_deg2rad:
  assumes "0 \<le> d" "d \<le> 180"
  shows "arccos (cos (deg2rad d)) = deg2rad d"
proof -
  have "rad2deg (arccos (cos (deg2rad d))) = rad2deg (deg2rad d)"
    using rad2deg_arccos_cos [OF assms] by (simp add: rad2deg_deg2rad)
  then show ?thesis
    by (simp add: rad2deg_def)
qed

lemma rad2deg_arccos_between:
  assumes "0 \<le> lo" "lo \<le> 180" "0 \<le> hi" "hi \<le> 180"
    and "cos (deg2rad hi) < y" "y < cos (deg2rad lo)"
  shows "lo < rad2deg (arccos y)" and "rad2deg (arccos y) < hi"
proof -
  have y: "- 1 \<le> y" "y \<le> 1"
    using assms(5,6) cos_ge_minus_one [of "deg2rad hi"] cos_le_one [of "deg2rad lo"]
    by linarith+
  have "arccos (cos (deg2rad lo)) < arccos y"
    using y(1) assms(6) by (intro arccos_less_arccos) simp_all
  then have "rad2deg (deg2rad lo) < rad2deg (arccos y)"
    unfolding arccos_cos_deg2rad [OF assms(1,2)] by (rule rad2deg_less)
  then show "lo < rad2deg (arccos y)"
    by (simp add: rad2deg_deg2rad)
  have "arccos y < arccos (cos (deg2rad hi))"
    using y(2) assms(5) by (intro arccos_less_arccos) simp_all
  then have "rad2deg (arccos y) < rad2deg (deg2rad hi)"
    unfolding arccos_cos_deg2rad [OF assms(3,4)] by (rule rad2deg_less)
  then show "rad2deg (arccos y) < hi"
    by (simp add: rad2deg_deg2rad)
qed

lemma agrees_3_product:
  assumes "lo = v - 1 / 2000" "hi = v + 1 / 2000" "0 \<le> lo" "hi \<le> 180"
    and "cos (deg2rad hi) \<le> uh" "la \<le> cos (deg2rad ps)" "lb \<le> cos (deg2rad p)"
    and "0 \<le> la" "0 \<le> lb" "uh < la * lb"
    and "cos (deg2rad ps) \<le> ua" "cos (deg2rad p) \<le> ub" "ll \<le> cos (deg2rad lo)"
    and "ua * ub < ll"
  shows "agrees_3 (rad2deg (arccos (cos (deg2rad ps) * cos (deg2rad p)))) v"
proof -
  let ?y = "cos (deg2rad ps) * cos (deg2rad p)"
  have "la * lb \<le> ?y"
    using assms(6-9) by (intro mult_mono) simp_all
  with assms(5,10) have 1: "cos (deg2rad hi) < ?y"
    by linarith
  have "?y \<le> ua * ub"
    using assms(6-9,11,12) by (intro mult_mono) simp_all
  with assms(13,14) have 2: "?y < cos (deg2rad lo)"
    by linarith
  have "lo \<le> 180" "0 \<le> hi"
    using assms(1-4) by simp_all
  with assms(3,4) have "lo < rad2deg (arccos ?y)" "rad2deg (arccos ?y) < hi"
    using rad2deg_arccos_between [OF _ _ _ _ 1 2] by simp_all
  then show ?thesis
    unfolding agrees_3_def assms(1,2) by linarith
qed

lemma returned_roll_0:
  assumes "0 \<le> fa - p" "fa - p \<le> 180" "0 \<le> fa + p" "fa + p \<le> 180"
  shows "returned (angle_from_vertical fa ps p 0) =
    Some (fa - p, rad2deg (arccos (cos (deg2rad ps) * cos (deg2rad p))),
          fa + p, rad2deg (arccos (cos (deg2rad ps) * cos (deg2rad p))))"
  using assms
  by (simp add: angle_from_vertical_returned deg2rad_zero deg2rad_diff deg2rad_add
      rad2deg_arccos_cos)

lemma evaluation_roll_0:
  assumes "0 \<le> fa - p" "fa - p \<le> 180" "0 \<le> fa + p" "fa + p \<le> 180"
    and "agrees_3 (rad2deg (arccos (cos (deg2rad ps) * cos (deg2rad p)))) v"
  shows "\<exists>t1 t2 t3 t4. returned (angle_from_vertical fa ps p 0) = Some (t1, t2, t3, t4) \<and>
    agrees_3 t1 (fa - p) \<and> agrees_3 t2 v \<and> agrees_3 t3 (fa + p) \<and> agrees_3 t4 v"
  using assms(5) unfolding returned_roll_0 [OF assms(1-4)]
  by (simp add: agrees_3_def)

subsection \<open>The cosines of the notebook's angles\<close>

text \<open>
  Lower and upper bounds of the cosines of the five mounting and pitch angles of the
  notebook's calls, and of the angles half a thousandth below and above each listed
  port angle.
\<close>

lemma cos_deg_25:
  shows "15570249214 / 17179869184 \<le> cos (deg2rad 25)"
    and "cos (deg2rad 25) \<le> 15570249226 / 17179869184"
proof -
  show "15570249214 / 17179869184 \<le> cos (deg2rad 25)"
    by (rule cos_deg_lower [where a = 7496132074 and b = 17179869184]) (simp_all add: cos_num_def)
  show "cos (deg2rad 25) \<le> 15570249226 / 17179869184"
    by (rule cos_deg_upper [where a = 7496132049 and b = 17179869184]) (simp_all add: cos_num_def)
qed

lemma cos_deg_17_4:
  shows "16393724010 / 17179869184 \<le> cos (deg2rad 17.4)"
    and "cos (deg2rad 17.4) \<le> 16393724016 / 17179869184"
proof -
  show "16393724010 / 17179869184 \<le> cos (deg2rad 17.4)"
    by (rule cos_deg_lower [where a = 5217307924 and b = 17179869184]) (simp_all add: cos_num_def)
  show "cos (deg2rad 17.4) \<le> 16393724016 / 17179869184"
    by (rule cos_deg_upper [where a = 5217307906 and b = 17179869184]) (simp_all add: cos_num_def)
qed

lemma cos_deg_22:
  shows "15928897325 / 17179869184 \<le> cos (deg2rad 22)"
    and "cos (deg2rad 22) \<le> 15928897335 / 17179869184"
proof -
  show "15928897325 / 17179869184 \<le> cos (deg2rad 22)"
    by (rule cos_deg_lower [where a = 6596596225 and b = 17179869184]) (simp_all add: cos_num_def)
  show "cos (deg2rad 22) \<le> 15928897335 / 17179869184"
    by (rule cos_deg_upper [where a = 6596596203 and b = 17179869184]) (simp_all add: cos_num_def)
qed

lemma cos_deg_13_2:
  shows "16725958189 / 17179869184 \<le> cos (deg2rad 13.2)"
    and "cos (deg2rad 13.2) \<le> 16725958193 / 17179869184"
proof -
  show "16725958189 / 17179869184 \<le> cos (deg2rad 13.2)"
    by (rule cos_deg_lower [where a = 3957957735 and b = 17179869184]) (simp_all add: cos_num_def)
  show "cos (deg2rad 13.2) \<le> 16725958193 / 17179869184"
    by (rule cos_deg_upper [where a = 3957957722 and b = 17179869184]) (simp_all add: cos_num_def)
qed

lemma cos_deg_21_1:
  shows "16028019678 / 17179869184 \<le> cos (deg2rad 21.1)"
    and "cos (deg2rad 21.1) \<le> 16028019686 / 17179869184"
proof -
  show "16028019678 / 17179869184 \<le> cos (deg2rad 21.1)"
    by (rule cos_deg_lower [where a = 6326735470 and b = 17179869184]) (simp_all add: cos_num_def)
  show "cos (deg2rad 21.1) \<le> 16028019686 / 17179869184"
    by (rule cos_deg_upper [where a = 6326735449 and b = 17179869184]) (simp_all add: cos_num_def)
qed

lemma cos_deg_30_1355: "14857847032 / 17179869184 \<le> cos (deg2rad 30.1355)"
  by (rule cos_deg_lower [where a = 9035987524 and b = 17179869184]) (simp_all add: cos_num_def)

lemma cos_deg_30_1365: "cos (deg2rad 30.1365) \<le> 14857696510 / 17179869184"
  by (rule cos_deg_upper [where a = 9036287340 and b = 17179869184]) (simp_all add: cos_num_def)

lemma cos_deg_32_8265: "14436518373 / 17179869184 \<le> cos (deg2rad 32.8265)"
  by (rule cos_deg_lower [where a = 9842871181 and b = 17179869184]) (simp_all add: cos_num_def)

lemma cos_deg_32_8275: "cos (deg2rad 32.8275) \<le> 14436355844 / 17179869184"
  by (rule cos_deg_upper [where a = 9843170994 and b = 17179869184]) (simp_all add: cos_num_def)

lemma cos_deg_25_4865: "15508039345 / 17179869184 \<le> cos (deg2rad 25.4865)"
  by (rule cos_deg_lower [where a = 7642006804 and b = 17179869184]) (simp_all add: cos_num_def)

lemma cos_deg_25_4875: "cos (deg2rad 25.4875) \<le> 15507910332 / 17179869184"
  by (rule cos_deg_upper [where a = 7642306624 and b = 17179869184]) (simp_all add: cos_num_def)

lemma cos_deg_30_1145: "14861007297 / 17179869184 \<le> cos (deg2rad 30.1145)"
  by (rule cos_deg_lower [where a = 9029690773 and b = 17179869184]) (simp_all add: cos_num_def)

lemma cos_deg_30_1155: "cos (deg2rad 30.1155) \<le> 14860856870 / 17179869184"
  by (rule cos_deg_upper [where a = 9029990589 and b = 17179869184]) (simp_all add: cos_num_def)

lemma port_25_17_4:
  "agrees_3 (rad2deg (arccos (cos (deg2rad 25) * cos (deg2rad 17.4)))) 30.136"
  by (rule agrees_3_product [where lo = "30.1355" and hi = "30.1365",
        OF _ _ _ _ cos_deg_30_1365 cos_deg_25(1) cos_deg_17_4(1) _ _ _
          cos_deg_25(2) cos_deg_17_4(2) cos_deg_30_1355])
    simp_all

lemma port_25_22:
  "agrees_3 (rad2deg (arccos (cos (deg2rad 25) * cos (deg2rad 22)))) 32.827"
  by (rule agrees_3_product [where lo = "32.8265" and hi = "32.8275",
        OF _ _ _ _ cos_deg_32_8275 cos_deg_25(1) cos_deg_22(1) _ _ _
          cos_deg_25(2) cos_deg_22(2) cos_deg_32_8265])
    simp_all

lemma port_13_2_22:
  "agrees_3 (rad2deg (arccos (cos (deg2rad 13.2) * cos (deg2rad 22)))) 25.487"
  by (rule agrees_3_product [where lo = "25.4865" and hi = "25.4875",
        OF _ _ _ _ cos_deg_25_4875 cos_deg_13_2(1) cos_deg_22(1) _ _ _
          cos_deg_13_2(2) cos_deg_22(2) cos_deg_25_4865])
    simp_all

lemma port_21_1_22:
  "agrees_3 (rad2deg (arccos (cos (deg2rad 21.1) * cos (deg2rad 22)))) 30.115"
  by (rule agrees_3_product [where lo = "30.1145" and hi = "30.1155",
        OF _ _ _ _ cos_deg_30_1155 cos_deg_21_1(1) cos_deg_22(1) _ _ _
          cos_deg_21_1(2) cos_deg_22(2) cos_deg_30_1145])
    simp_all

lemma port_25_minus_17_4:
  "agrees_3 (rad2deg (arccos (cos (deg2rad 25) * cos (deg2rad (- 17.4))))) 30.136"
  using port_25_17_4 by (simp add: deg2rad_minus)

subsection \<open>The outputs recorded in the notebook\<close>

text \<open>
  The notebook keeps the text printed by its six calls. The model prints the same
  text: for the call with the defaults this is \<open>default_call_prints\<close> above, and for
  the five other calls it follows from the bounds on the port angle.
\<close>

lemma round_half_even_nearest:
  assumes "\<bar>x - of_int n\<bar> < 1 / 2"
  shows "round_half_even x = n"
proof (cases "of_int n \<le> x")
  case True
  have "x < of_int n + 1"
    using assms by linarith
  with True have "\<lfloor>x\<rfloor> = n"
    by (intro floor_unique)
  with assms True show ?thesis
    by (simp add: round_half_even_def Let_def)
next
  case False
  have "of_int n - 1 \<le> x"
    using assms by linarith
  with False have "\<lfloor>x\<rfloor> = n - 1"
    by (intro floor_unique) simp_all
  with assms False show ?thesis
    by (simp add: round_half_even_def Let_def)
qed

lemma format_3f_agrees:
  assumes "0 \<le> t" "agrees_3 t (real n / 1000)"
  shows "format_3f t = fixed_3 n"
proof -
  have "- (1 / 2000) < t - real n / 1000" "t - real n / 1000 < 1 / 2000"
    using assms(2) unfolding agrees_3_def abs_less_iff by simp_all
  then have "\<bar>t * 1000 - of_int (int n)\<bar> < 1 / 2"
    unfolding abs_less_iff by simp
  then have "round_half_even (t * 1000) = int n"
    by (rule round_half_even_nearest)
  with assms(1) show ?thesis
    by (simp add: format_3f_def)
qed

lemma fixed_3_values:
  "fixed_3 30100 = ''30.100''" "fixed_3 30136 = ''30.136''" "fixed_3 64900 = ''64.900''"
  "fixed_3 32800 = ''32.800''" "fixed_3 32827 = ''32.827''" "fixed_3 76800 = ''76.800''"
  "fixed_3 25500 = ''25.500''" "fixed_3 25487 = ''25.487''" "fixed_3 69500 = ''69.500''"
  "fixed_3 30115 = ''30.115''" "fixed_3 74100 = ''74.100''"
  by (simp_all add: fixed_3_def str_nat.simps digit_char_def)

lemma printed_roll_0:
  assumes "0 \<le> fa - p" "fa - p \<le> 180" "0 \<le> fa + p" "fa + p \<le> 180"
    and "agrees_3 (fa - p) (real nf / 1000)"
    and "agrees_3 (rad2deg (arccos (cos (deg2rad ps) * cos (deg2rad p)))) (real np / 1000)"
    and "agrees_3 (fa + p) (real na / 1000)"
  shows "printed (angle_from_vertical fa ps p 0) =
    Some (''fore angle: '' @ fixed_3 nf @ [newline] @ ''port angle: '' @ fixed_3 np @ [newline] @
          ''aft angle: '' @ fixed_3 na @ [newline] @ ''stbd angle: '' @ fixed_3 np @ [newline])"
proof -
  let ?t = "rad2deg (arccos (cos (deg2rad ps) * cos (deg2rad p)))"
  have "0 \<le> ?t"
    using rad2deg_arccos_range [OF conjunct1 [OF cos_mult_cos_bounds] conjunct2 [OF cos_mult_cos_bounds]]
    by simp
  then have "format_3f ?t = fixed_3 np"
    using assms(6) by (rule format_3f_agrees)
  moreover have "format_3f (fa - p) = fixed_3 nf" "format_3f (fa + p) = fixed_3 na"
    using assms by (simp_all add: format_3f_agrees)
  ultimately show ?thesis
    unfolding angle_from_vertical_printed [OF returned_roll_0 [OF assms(1-4)]] by simp
qed

lemma notebook_output_17_4:
  "printed (angle_from_vertical_call None None (Some 17.4) None) =
     Some ''fore angle: 30.100\<newline>port angle: 30.136\<newline>aft angle: 64.900\<newline>stbd angle: 30.136\<newline>''"
proof -
  have "agrees_3 (rad2deg (arccos (cos (deg2rad 25) * cos (deg2rad 17.4)))) (real 30136 / 1000)"
    using port_25_17_4 by simp
  from printed_roll_0 [where fa = "47.5" and nf = 30100 and na = 64900, OF _ _ _ _ _ this]
  show ?thesis
    unfolding angle_from_vertical_call_def option.case
    by (simp add: agrees_3_def fixed_3_values newline_def)
qed

lemma notebook_output_minus_17_4:
  "printed (angle_from_vertical_call None None (Some (- 17.4)) None) =
     Some ''fore angle: 64.900\<newline>port angle: 30.136\<newline>aft angle: 30.100\<newline>stbd angle: 30.136\<newline>''"
proof -
  have "agrees_3 (rad2deg (arccos (cos (deg2rad 25) * cos (deg2rad (- 17.4))))) (real 30136 / 1000)"
    using port_25_minus_17_4 by simp
  from printed_roll_0 [where fa = "47.5" and nf = 64900 and na = 30100, OF _ _ _ _ _ this]
  show ?thesis
    unfolding angle_from_vertical_call_def option.case
    by (simp add: agrees_3_def fixed_3_values newline_def)
qed

lemma notebook_output_22_fa_54_8:
  "printed (angle_from_vertical_call (Some 54.8) None (Some 22) None) =
     Some ''fore angle: 32.800\<newline>port angle: 32.827\<newline>aft angle: 76.800\<newline>stbd angle: 32.827\<newline>''"
proof -
  have "agrees_3 (rad2deg (arccos (cos (deg2rad 25) * cos (deg2rad 22)))) (real 32827 / 1000)"
    using port_25_22 by simp
  from printed_roll_0 [where fa = "54.8" and nf = 32800 and na = 76800, OF _ _ _ _ _ this]
  show ?thesis
    unfolding angle_from_vertical_call_def option.case
    by (simp add: agrees_3_def fixed_3_values newline_def)
qed

lemma notebook_output_22_ps_13_2:
  "printed (angle_from_vertical_call None (Some 13.2) (Some 22) None) =
     Some ''fore angle: 25.500\<newline>port angle: 25.487\<newline>aft angle: 69.500\<newline>stbd angle: 25.487\<newline>''"
proof -
  have "agrees_3 (rad2deg (arccos (cos (deg2rad 13.2) * cos (deg2rad 22)))) (real 25487 / 1000)"
    using port_13_2_22 by simp
  from printed_roll_0 [where fa = "47.5" and nf = 25500 and na = 69500, OF _ _ _ _ _ this]
  show ?thesis
    unfolding angle_from_vertical_call_def option.case
    by (simp add: agrees_3_def fixed_3_values newline_def)
qed

lemma notebook_output_22_ps_21_1_fa_52_1:
  "printed (angle_from_vertical_call (Some 52.1) (Some 21.1) (Some 22) None) =
     Some ''fore angle: 30.100\<newline>port angle: 30.115\<newline>aft angle: 74.100\<newline>stbd angle: 30.115\<newline>''"
proof -
  have "agrees_3 (rad2deg (arccos (cos (deg2rad 21.1) * cos (deg2rad 22)))) (real 30115 / 1000)"
    using port_21_1_22 by simp
  from printed_roll_0 [where fa = "52.1" and nf = 30100 and na = 74100, OF _ _ _ _ _ this]
  show ?thesis
    unfolding angle_from_vertical_call_def option.case
    by (simp add: agrees_3_def fixed_3_values newline_def)
qed

subsection \<open>The claims\<close>

text \<open>
  C1. For all inputs, \<open>angle_from_vertical\<close> returns the tuple
  \<open>(theta_1, theta_2, theta_3, theta_4)\<close> of the specification's four formulas (each
  parameter converted to radians, the result of \<open>arccos\<close> converted back to degrees), in
  the order fore, port, aft, starboard.
\<close>

theorem angle_from_vertical_formulas:
  "returned (angle_from_vertical fore_aft port_starboard pitch roll) =
     Some (spec_theta_1 fore_aft port_starboard pitch roll,
           spec_theta_2 fore_aft port_starboard pitch roll,
           spec_theta_3 fore_aft port_starboard pitch roll,
           spec_theta_4 fore_aft port_starboard pitch roll)"
  by (simp add: angle_from_vertical_returned spec_theta_1_def spec_theta_2_def spec_theta_3_def
      spec_theta_4_def spec_degrees_def spec_radians_def rad2deg_def deg2rad_def)

text \<open>
  C2. For all inputs, each of the four returned angles lies between 0 and 180 degrees.
\<close>

theorem angle_from_vertical_range:
  "\<exists>theta_1 theta_2 theta_3 theta_4.
     returned (angle_from_vertical fore_aft port_starboard pitch roll) =
       Some (theta_1, theta_2, theta_3, theta_4) \<and>
     0 \<le> theta_1 \<and> theta_1 \<le> 180 \<and> 0 \<le> theta_2 \<and> theta_2 \<le> 180 \<and>
     0 \<le> theta_3 \<and> theta_3 \<le> 180 \<and> 0 \<le> theta_4 \<and> theta_4 \<le> 180"
  using rad2deg_arccos_range cos_mult_cos_bounds
  by (simp add: angle_from_vertical_returned)

text \<open>
  C3. For all inputs, the argument of each of the four \<open>arccos\<close> lies in \<open>[-1, 1]\<close>, so
  that no \<open>np_arccos\<close> fails and the function returns a result: the failure branch is
  never taken, whatever the four numbers are.
\<close>

theorem angle_from_vertical_never_fails:
  "(- 1 \<le> cos (deg2rad fore_aft - deg2rad pitch) * cos (deg2rad roll) \<and>
    cos (deg2rad fore_aft - deg2rad pitch) * cos (deg2rad roll) \<le> 1) \<and>
   (- 1 \<le> cos (deg2rad port_starboard - deg2rad roll) * cos (deg2rad pitch) \<and>
    cos (deg2rad port_starboard - deg2rad roll) * cos (deg2rad pitch) \<le> 1) \<and>
   (- 1 \<le> cos (deg2rad fore_aft + deg2rad pitch) * cos (deg2rad roll) \<and>
    cos (deg2rad fore_aft + deg2rad pitch) * cos (deg2rad roll) \<le> 1) \<and>
   (- 1 \<le> cos (deg2rad port_starboard + deg2rad roll) * cos (deg2rad pitch) \<and>
    cos (deg2rad port_starboard + deg2rad roll) * cos (deg2rad pitch) \<le> 1) \<and>
   np_arccos (cos (deg2rad fore_aft - deg2rad pitch) * cos (deg2rad roll)) =
     Some (arccos (cos (deg2rad fore_aft - deg2rad pitch) * cos (deg2rad roll))) \<and>
   np_arccos (cos (deg2rad port_starboard - deg2rad roll) * cos (deg2rad pitch)) =
     Some (arccos (cos (deg2rad port_starboard - deg2rad roll) * cos (deg2rad pitch))) \<and>
   np_arccos (cos (deg2rad fore_aft + deg2rad pitch) * cos (deg2rad roll)) =
     Some (arccos (cos (deg2rad fore_aft + deg2rad pitch) * cos (deg2rad roll))) \<and>
   np_arccos (cos (deg2rad port_starboard + deg2rad roll) * cos (deg2rad pitch)) =
     Some (arccos (cos (deg2rad port_starboard + deg2rad roll) * cos (deg2rad pitch))) \<and>
   (\<exists>out res. angle_from_vertical fore_aft port_starboard pitch roll = Some (out, res))"
proof -
  have "returned (angle_from_vertical fore_aft port_starboard pitch roll) \<noteq> None"
    by (simp add: angle_from_vertical_returned)
  then have "\<exists>out res. angle_from_vertical fore_aft port_starboard pitch roll = Some (out, res)"
    by (auto simp: returned_def)
  then show ?thesis
    using cos_mult_cos_bounds by (simp add: np_arccos_cos_mult_cos)
qed

text \<open>
  C4. With roll 0, flipping the sign of the pitch swaps the fore and the aft angle:
  \<open>theta_3\<close> at \<open>pitch\<close> is \<open>theta_1\<close> at \<open>- pitch\<close>, and \<open>theta_1\<close> at \<open>pitch\<close> is
  \<open>theta_3\<close> at \<open>- pitch\<close>.
\<close>

theorem pitch_flip_swaps_fore_aft:
  "\<exists>theta_1 theta_2 theta_3 theta_4 port' stbd'.
     returned (angle_from_vertical fore_aft port_starboard pitch 0) =
       Some (theta_1, theta_2, theta_3, theta_4) \<and>
     returned (angle_from_vertical fore_aft port_starboard (- pitch) 0) =
       Some (theta_3, port', theta_1, stbd')"
  by (simp add: angle_from_vertical_returned deg2rad_minus)

text \<open>
  C5. Flipping the sign of the roll swaps the port and the starboard angle: \<open>theta_2\<close>
  at \<open>- roll\<close> is \<open>theta_4\<close> at \<open>roll\<close>, and \<open>theta_4\<close> at \<open>- roll\<close> is \<open>theta_2\<close> at
  \<open>roll\<close>.
\<close>

theorem roll_flip_swaps_port_stbd:
  "\<exists>theta_1 theta_2 theta_3 theta_4 fore' aft'.
     returned (angle_from_vertical fore_aft port_starboard pitch roll) =
       Some (theta_1, theta_2, theta_3, theta_4) \<and>
     returned (angle_from_vertical fore_aft port_starboard pitch (- roll)) =
       Some (fore', theta_4, aft', theta_2)"
  by (simp add: angle_from_vertical_returned deg2rad_minus)

text \<open>
  C6. The call with every parameter left at its default returns
  \<open>(47.5, 25, 47.5, 25)\<close>; on the reals the four values are exact, hence within any
  tolerance.
\<close>

theorem default_call_returns:
  "returned (angle_from_vertical_call None None None None) = Some (47.5, 25, 47.5, 25)"
  unfolding angle_from_vertical_call_def option.case by (rule flat_defaults)

text \<open>
  C7. The five evaluations recorded in the notebook: each returned angle agrees to
  three decimals with the listed value, for \<open>pitch = 17.4\<close>, for \<open>pitch = - 17.4\<close>, for
  \<open>pitch = 22\<close> with \<open>fore_aft_angle = 54.8\<close>, for \<open>pitch = 22\<close> with
  \<open>port_starboard_angle = 13.2\<close>, and for \<open>pitch = 22\<close> with
  \<open>port_starboard_angle = 21.1\<close> and \<open>fore_aft_angle = 52.1\<close>.
\<close>

theorem notebook_evaluations:
  "(\<exists>t1 t2 t3 t4.
      returned (angle_from_vertical_call None None (Some 17.4) None) = Some (t1, t2, t3, t4) \<and>
      agrees_3 t1 30.100 \<and> agrees_3 t2 30.136 \<and> agrees_3 t3 64.900 \<and> agrees_3 t4 30.136) \<and>
   (\<exists>t1 t2 t3 t4.
      returned (angle_from_vertical_call None None (Some (- 17.4)) None) = Some (t1, t2, t3, t4) \<and>
      agrees_3 t1 64.900 \<and> agrees_3 t2 30.136 \<and> agrees_3 t3 30.100 \<and> agrees_3 t4 30.136) \<and>
   (\<exists>t1 t2 t3 t4.
      returned (angle_from_vertical_call (Some 54.8) None (Some 22) None) = Some (t1, t2, t3, t4) \<and>
      agrees_3 t1 32.800 \<and> agrees_3 t2 32.827 \<and> agrees_3 t3 76.800 \<and> agrees_3 t4 32.827) \<and>
   (\<exists>t1 t2 t3 t4.
      returned (angle_from_vertical_call None (Some 13.2) (Some 22) None) = Some (t1, t2, t3, t4) \<and>
      agrees_3 t1 25.500 \<and> agrees_3 t2 25.487 \<and> agrees_3 t3 69.500 \<and> agrees_3 t4 25.487) \<and>
   (\<exists>t1 t2 t3 t4.
      returned (angle_from_vertical_call (Some 52.1) (Some 21.1) (Some 22) None) = Some (t1, t2, t3, t4) \<and>
      agrees_3 t1 30.100 \<and> agrees_3 t2 30.115 \<and> agrees_3 t3 74.100 \<and> agrees_3 t4 30.115)"
proof (intro conjI)
  show "\<exists>t1 t2 t3 t4.
      returned (angle_from_vertical_call None None (Some 17.4) None) = Some (t1, t2, t3, t4) \<and>
      agrees_3 t1 30.100 \<and> agrees_3 t2 30.136 \<and> agrees_3 t3 64.900 \<and> agrees_3 t4 30.136"
    unfolding angle_from_vertical_call_def option.case
    using evaluation_roll_0 [OF _ _ _ _ port_25_17_4, of "47.5"] by simp
  show "\<exists>t1 t2 t3 t4.
      returned (angle_from_vertical_call None None (Some (- 17.4)) None) = Some (t1, t2, t3, t4) \<and>
      agrees_3 t1 64.900 \<and> agrees_3 t2 30.136 \<and> agrees_3 t3 30.100 \<and> agrees_3 t4 30.136"
    unfolding angle_from_vertical_call_def option.case
    using evaluation_roll_0 [OF _ _ _ _ port_25_minus_17_4, of "47.5"] by simp
  show "\<exists>t1 t2 t3 t4.
      returned (angle_from_vertical_call (Some 54.8) None (Some 22) None) = Some (t1, t2, t3, t4) \<and>
      agrees_3 t1 32.800 \<and> agrees_3 t2 32.827 \<and> agrees_3 t3 76.800 \<and> agrees_3 t4 32.827"
    unfolding angle_from_vertical_call_def option.case
    using evaluation_roll_0 [OF _ _ _ _ port_25_22, of "54.8"] by simp
  show "\<exists>t1 t2 t3 t4.
      returned (angle_from_vertical_call None (Some 13.2) (Some 22) None) = Some (t1, t2, t3, t4) \<and>
      agrees_3 t1 25.500 \<and> agrees_3 t2 25.487 \<and> agrees_3 t3 69.500 \<and> agrees_3 t4 25.487"
    unfolding angle_from_vertical_call_def option.case
    using evaluation_roll_0 [OF _ _ _ _ port_13_2_22, of "47.5"] by simp
  show "\<exists>t1 t2 t3 t4.
      returned (angle_from_vertical_call (Some 52.1) (Some 21.1) (Some 22) None) = Some (t1, t2, t3, t4) \<and>
      agrees_3 t1 30.100 \<and> agrees_3 t2 30.115 \<and> agrees_3 t3 74.100 \<and> agrees_3 t4 30.115"
    unfolding angle_from_vertical_call_def option.case
    using evaluation_roll_0 [OF _ _ _ _ port_21_1_22, of "52.1"] by simp
qed




text \<open>
  C10. Exchanging the mounting angles with each other and the pitch with the roll
  moves the port and starboard angles to the fore and aft places: \<open>theta_2\<close> is
  \<open>theta_1\<close> of the exchanged call and \<open>theta_4\<close> is its \<open>theta_3\<close>. Moreover \<open>theta_2\<close>
  and \<open>theta_4\<close> do not change when the pitch changes sign, and \<open>theta_1\<close> and \<open>theta_3\<close>
  do not change when the roll changes sign.
\<close>

theorem swap_pairs:
  "\<exists>theta_1 theta_2 theta_3 theta_4 a b c d e f.
     returned (angle_from_vertical fore_aft port_starboard pitch roll) =
       Some (theta_1, theta_2, theta_3, theta_4) \<and>
     returned (angle_from_vertical port_starboard fore_aft roll pitch) =
       Some (theta_2, a, theta_4, b) \<and>
     returned (angle_from_vertical fore_aft port_starboard (- pitch) roll) =
       Some (c, theta_2, d, theta_4) \<and>
     returned (angle_from_vertical fore_aft port_starboard pitch (- roll)) =
       Some (theta_1, e, theta_3, f)"
  by (simp add: angle_from_vertical_returned deg2rad_minus)

end
